theory Spec2Isabelle
  imports Main
begin

section \<open>The os\_volume\_backup module: data\<close>

text \<open>
  The module \<^verbatim>\<open>lib/ansible/modules/cloud/openstack/os_volume_backup.py\<close> decides,
  from its parameters, which operations of the cloud client to call, and reports the
  outcome through \<^verbatim>\<open>module.exit_json\<close> or \<^verbatim>\<open>module.fail_json\<close>.

  The parameters are those of \<^verbatim>\<open>argument_spec\<close> in \<^verbatim>\<open>main\<close>: \<^verbatim>\<open>mode\<close> and
  \<^verbatim>\<open>state\<close> are restricted by \<^verbatim>\<open>choices\<close>, \<^verbatim>\<open>backup\<close> is required, the other
  strings are \<^verbatim>\<open>None\<close> when omitted. \<^verbatim>\<open>wait\<close> and \<^verbatim>\<open>timeout\<close> come from the
  common OpenStack argument spec; \<^verbatim>\<open>check_mode\<close> is the attribute
  \<^verbatim>\<open>module.check_mode\<close>. Parsing the parameters and building the cloud client
  (\<^verbatim>\<open>AnsibleModule\<close>, \<^verbatim>\<open>openstack_cloud_from_module\<close>) come before the code modelled
  here, which starts at the \<^verbatim>\<open>try\<close> statement of \<^verbatim>\<open>main\<close>.
\<close>

datatype mode_t = ModeBackup | ModeRestore

datatype state_t = Present | Absent

record module =
  backup :: string
  display_description :: "string option"
  source_volume :: "string option"
  target_volume :: "string option"
  mode :: mode_t
  force :: bool
  state :: state_t
  wait :: bool
  timeout :: int
  check_mode :: bool

text \<open>
  Objects returned by the cloud client. The module reads only \<^verbatim>\<open>id\<close> of a volume and
  of a backup; the other fields are carried along in the results.
\<close>

record volume =
  vol_id :: string
  vol_name :: string

record volume_backup =
  bk_id :: string
  bk_name :: string
  bk_volume_id :: string

record restore_result =
  rs_backup_id :: string
  rs_volume_id :: string
  rs_volume_name :: string

text \<open>
  An exception raised by the cloud client. The class hierarchy of the SDK is not part of
  the module, so an exception carries what the handlers of the module ask of it:
  whether \<^verbatim>\<open>except sdk.exceptions.HttpException\<close> matches it, whether
  \<^verbatim>\<open>except (sdk.exceptions.OpenStackCloudException, sdk.exceptions.ResourceTimeout)\<close>
  matches it, and its attributes \<^verbatim>\<open>message\<close> and \<^verbatim>\<open>details\<close> (the latter may be
  \<^verbatim>\<open>None\<close>).
\<close>

record sdk_error =
  is_HttpException :: bool
  is_CloudException_or_Timeout :: bool
  message :: string
  details :: "string option"

datatype py_exception = AttributeError | TypeError | SDKError sdk_error

text \<open>Keyword arguments of the three mutating operations, as the module passes them.\<close>

record create_args =
  ca_volume_id :: string
  ca_force :: bool
  ca_wait :: bool
  ca_timeout :: int
  ca_name :: string
  ca_description :: "string option"

record delete_args =
  da_name_or_id :: string
  da_wait :: bool
  da_timeout :: int

record restore_args =
  ra_backup_id :: string
  ra_volume_name :: "string option"
  ra_volume_id :: "string option"
  ra_wait :: bool
  ra_timeout :: int

text \<open>
  The cloud client, over a state \<open>'c\<close> of the cloud. Every operation may raise. The three
  lookups leave the cloud as it is; the three mutating operations return the new state
  of the cloud, also when they raise. The \<^verbatim>\<open>filters\<close> dictionary of
  \<^verbatim>\<open>get_volume_backup\<close> is a list of key-value pairs.
\<close>

type_synonym filters = "(string \<times> string) list"

record 'c cloud =
  get_volume :: "'c \<Rightarrow> string option \<Rightarrow> sdk_error + volume option"
  volume_exists :: "'c \<Rightarrow> string option \<Rightarrow> sdk_error + bool"
  get_volume_backup :: "'c \<Rightarrow> string \<Rightarrow> filters \<Rightarrow> sdk_error + volume_backup option"
  create_volume_backup :: "'c \<Rightarrow> create_args \<Rightarrow> (sdk_error + volume_backup) \<times> 'c"
  delete_volume_backup :: "'c \<Rightarrow> delete_args \<Rightarrow> (sdk_error + bool) \<times> 'c"
  restore_volume_backup :: "'c \<Rightarrow> restore_args \<Rightarrow> (sdk_error + restore_result) \<times> 'c"

text \<open>The calls made on the cloud client, in the order they are made.\<close>

datatype call =
    Get_volume "string option"
  | Volume_exists "string option"
  | Get_volume_backup string filters
  | Create_volume_backup create_args
  | Delete_volume_backup delete_args
  | Restore_volume_backup restore_args

fun is_mutating :: "call \<Rightarrow> bool" where
  "is_mutating (Create_volume_backup a) = True"
| "is_mutating (Delete_volume_backup a) = True"
| "is_mutating (Restore_volume_backup a) = True"
| "is_mutating k = False"

text \<open>
  How an invocation ends: \<^verbatim>\<open>exit_json\<close> with its keyword arguments, \<^verbatim>\<open>fail_json\<close>
  with its \<^verbatim>\<open>msg\<close>, or an exception. Both \<^verbatim>\<open>exit_json\<close> and \<^verbatim>\<open>fail_json\<close> leave the
  process, so nothing after them runs and no handler of the module sees them.
\<close>

datatype json = VBool bool | VStr string | VBackup volume_backup | VRestore restore_result

datatype outcome =
    ExitJson "(string \<times> json) list"
  | FailJson "string option"
  | Raise py_exception

section \<open>The module\<close>

text \<open>Truth value of an optional string parameter: \<^verbatim>\<open>None\<close> and \<^verbatim>\<open>''\<close> are false.\<close>

fun truthy :: "string option \<Rightarrow> bool" where
  "truthy None = False"
| "truthy (Some s) = (s \<noteq> [])"

text \<open>\<^verbatim>\<open>'{0}'.format(x)\<close> for an optional string.\<close>

fun py_format :: "string option \<Rightarrow> string" where
  "py_format None = ''None''"
| "py_format (Some s) = s"

definition quote :: string where
  "quote = [CHR 0x27]"

text \<open>
  The \<^verbatim>\<open>filters\<close> dictionary of \<^verbatim>\<open>_absent_volume_backup\<close> (lines 167 to 169) and of
  \<^verbatim>\<open>_restore_volume_backup\<close> (lines 186 to 188): empty, or \<^verbatim>\<open>volume_id\<close> set to the
  parameter \<^verbatim>\<open>source_volume\<close> as it is when that parameter is true.
\<close>

fun source_volume_filters :: "string option \<Rightarrow> filters" where
  "source_volume_filters None = []"
| "source_volume_filters (Some s) = (if s \<noteq> [] then [(''volume_id'', s)] else [])"

text \<open>
  \<^verbatim>\<open>_present_volume_backup\<close>. A backup object is true, \<^verbatim>\<open>None\<close> is false; \<^verbatim>\<open>volume.id\<close>
  on \<^verbatim>\<open>None\<close> raises \<^verbatim>\<open>AttributeError\<close>. The functions take the state of the cloud and
  the calls made so far, and return the outcome, the state of the cloud and the calls
  made. An exception that \<^verbatim>\<open>except sdk.exceptions.HttpException\<close> does not match goes on
  to the handler of \<^verbatim>\<open>main\<close>.
\<close>

definition present_volume_backup ::
  "'c cloud \<Rightarrow> module \<Rightarrow> 'c \<Rightarrow> call list \<Rightarrow> outcome \<times> 'c \<times> call list" where
  "present_volume_backup cloud m c t =
    (let t1 = t @ [Get_volume (source_volume m)] in
     case get_volume cloud c (source_volume m) of
       Inl e \<Rightarrow> (Raise (SDKError e), c, t1)
     | Inr None \<Rightarrow> (Raise AttributeError, c, t1)
     | Inr (Some volume) \<Rightarrow>
        (let flt = [(''volume_id'', vol_id volume)];
             t2 = t1 @ [Get_volume_backup (backup m) flt] in
         case get_volume_backup cloud c (backup m) flt of
           Inl e \<Rightarrow> (Raise (SDKError e), c, t2)
         | Inr None \<Rightarrow>
            (let args = \<lparr>ca_volume_id = vol_id volume, ca_force = force m, ca_wait = wait m,
                         ca_timeout = timeout m, ca_name = backup m,
                         ca_description = display_description m\<rparr>;
                 t3 = t2 @ [Create_volume_backup args] in
             case create_volume_backup cloud c args of
               (Inl e, c') \<Rightarrow>
                 (if is_HttpException e then (FailJson (details e), c', t3)
                  else (Raise (SDKError e), c', t3))
             | (Inr b, c') \<Rightarrow>
                 (ExitJson [(''changed'', VBool True), (''backup'', VBackup b)], c', t3))
         | Inr (Some b) \<Rightarrow>
            (ExitJson [(''changed'', VBool False), (''backup'', VBackup b)], c, t2)))"

text \<open>\<^verbatim>\<open>_absent_volume_backup\<close>. The value \<^verbatim>\<open>delete_volume_backup\<close> returns is not used.\<close>

definition absent_volume_backup ::
  "'c cloud \<Rightarrow> module \<Rightarrow> 'c \<Rightarrow> call list \<Rightarrow> outcome \<times> 'c \<times> call list" where
  "absent_volume_backup cloud m c t =
    (let flt = source_volume_filters (source_volume m);
         t1 = t @ [Get_volume_backup (backup m) flt] in
     case get_volume_backup cloud c (backup m) flt of
       Inl e \<Rightarrow> (Raise (SDKError e), c, t1)
     | Inr None \<Rightarrow> (ExitJson [(''changed'', VBool False)], c, t1)
     | Inr (Some b) \<Rightarrow>
        (let args = \<lparr>da_name_or_id = bk_id b, da_wait = wait m, da_timeout = timeout m\<rparr>;
             t2 = t1 @ [Delete_volume_backup args] in
         case delete_volume_backup cloud c args of
           (Inl e, c') \<Rightarrow> (Raise (SDKError e), c', t2)
         | (Inr r, c') \<Rightarrow>
             (ExitJson [(''changed'', VBool True), (''backup_id'', VStr (bk_id b))], c', t2)))"

text \<open>
  Lines 190 to 195 of \<^verbatim>\<open>_restore_volume_backup\<close>: the pair
  \<^verbatim>\<open>(volume_id, volume_name)\<close> for the target volume. \<^verbatim>\<open>volume['id']\<close> on \<^verbatim>\<open>None\<close>
  raises \<^verbatim>\<open>TypeError\<close>.
\<close>

definition restore_target ::
  "'c cloud \<Rightarrow> module \<Rightarrow> 'c \<Rightarrow> call list \<Rightarrow>
     (py_exception + string option \<times> string option) \<times> call list" where
  "restore_target cloud m c t =
    (if truthy (target_volume m) then
       (let t1 = t @ [Volume_exists (target_volume m)] in
        case volume_exists cloud c (target_volume m) of
          Inl e \<Rightarrow> (Inl (SDKError e), t1)
        | Inr True \<Rightarrow>
           (let t2 = t1 @ [Get_volume (target_volume m)] in
            case get_volume cloud c (target_volume m) of
              Inl e \<Rightarrow> (Inl (SDKError e), t2)
            | Inr None \<Rightarrow> (Inl TypeError, t2)
            | Inr (Some volume) \<Rightarrow> (Inr (Some (vol_id volume), None), t2))
        | Inr False \<Rightarrow> (Inr (None, target_volume m), t1))
     else (Inr (None, None), t))"

text \<open>\<^verbatim>\<open>_restore_volume_backup\<close>.\<close>

definition restore_volume_backup_m ::
  "'c cloud \<Rightarrow> module \<Rightarrow> 'c \<Rightarrow> call list \<Rightarrow> outcome \<times> 'c \<times> call list" where
  "restore_volume_backup_m cloud m c t =
    (let flt = source_volume_filters (source_volume m) in
     case restore_target cloud m c t of
       (Inl ex, t1) \<Rightarrow> (Raise ex, c, t1)
     | (Inr (volume_id, volume_name), t1) \<Rightarrow>
        (let t2 = t1 @ [Get_volume_backup (backup m) flt] in
         case get_volume_backup cloud c (backup m) flt of
           Inl e \<Rightarrow> (Raise (SDKError e), c, t2)
         | Inr (Some b) \<Rightarrow>
            (let args = \<lparr>ra_backup_id = bk_id b, ra_volume_name = volume_name,
                         ra_volume_id = volume_id, ra_wait = wait m, ra_timeout = timeout m\<rparr>;
                 t3 = t2 @ [Restore_volume_backup args] in
             case restore_volume_backup cloud c args of
               (Inl e, c') \<Rightarrow> (Raise (SDKError e), c', t3)
             | (Inr r, c') \<Rightarrow>
                 (ExitJson [(''changed'', VBool True), (''restore'', VRestore r)], c', t3))
         | Inr None \<Rightarrow>
            (FailJson (Some (''No backup name or id '' @ quote @ backup m @ quote
                             @ '' was found.'')), c, t2)))"

text \<open>\<^verbatim>\<open>_system_state_change\<close>: the value it returns, or the exception it raises.\<close>

definition system_state_change ::
  "'c cloud \<Rightarrow> module \<Rightarrow> 'c \<Rightarrow> call list \<Rightarrow> (py_exception + bool) \<times> call list" where
  "system_state_change cloud m c t =
    (let t1 = t @ [Get_volume (source_volume m)] in
     case get_volume cloud c (source_volume m) of
       Inl e \<Rightarrow> (Inl (SDKError e), t1)
     | Inr None \<Rightarrow> (Inl AttributeError, t1)
     | Inr (Some volume) \<Rightarrow>
        (let flt = [(''volume_id'', vol_id volume)];
             t2 = t1 @ [Get_volume_backup (backup m) flt] in
         case get_volume_backup cloud c (backup m) flt of
           Inl e \<Rightarrow> (Inl (SDKError e), t2)
         | Inr b \<Rightarrow>
            (case state m of
               Present \<Rightarrow> (Inr (b = None), t2)
             | Absent \<Rightarrow> (Inr (b \<noteq> None), t2))))"

text \<open>The body of the \<^verbatim>\<open>try\<close> statement of \<^verbatim>\<open>main\<close>.\<close>

definition main_try :: "'c cloud \<Rightarrow> module \<Rightarrow> 'c \<Rightarrow> outcome \<times> 'c \<times> call list" where
  "main_try cloud m c =
    (case mode m of
       ModeBackup \<Rightarrow>
         (if check_mode m then
            (case system_state_change cloud m c [] of
               (Inl ex, t) \<Rightarrow> (Raise ex, c, t)
             | (Inr changed, t) \<Rightarrow> (ExitJson [(''changed'', VBool changed)], c, t))
          else
            (case state m of
               Present \<Rightarrow>
                 (let t1 = [Volume_exists (source_volume m)] in
                  case volume_exists cloud c (source_volume m) of
                    Inl e \<Rightarrow> (Raise (SDKError e), c, t1)
                  | Inr True \<Rightarrow> present_volume_backup cloud m c t1
                  | Inr False \<Rightarrow>
                     (FailJson (Some (''No volume with name or id '' @ quote
                                      @ py_format (source_volume m) @ quote
                                      @ '' was found.'')), c, t1))
             | Absent \<Rightarrow> absent_volume_backup cloud m c []))
     | ModeRestore \<Rightarrow>
         (if check_mode m then
            (ExitJson [(''skipped'', VBool True),
                       (''msg'', VStr ''mode 'restore' does not support check mode, skipping'')],
             c, [])
          else restore_volume_backup_m cloud m c []))"

text \<open>
  The handler of \<^verbatim>\<open>main\<close>,
  \<^verbatim>\<open>except (sdk.exceptions.OpenStackCloudException, sdk.exceptions.ResourceTimeout)\<close>:
  it turns a matching exception into \<^verbatim>\<open>fail_json(msg=e.message)\<close>; any other exception
  leaves \<^verbatim>\<open>main\<close>, and \<^verbatim>\<open>exit_json\<close> and \<^verbatim>\<open>fail_json\<close> pass through it.
\<close>

fun main_except :: "outcome \<times> 'c \<times> call list \<Rightarrow> outcome \<times> 'c \<times> call list" where
  "main_except (Raise (SDKError e), c, t) =
     (if is_CloudException_or_Timeout e then (FailJson (Some (message e)), c, t)
      else (Raise (SDKError e), c, t))"
| "main_except (out, c, t) = (out, c, t)"

text \<open>\<^verbatim>\<open>main\<close>, from the parsed parameters on.\<close>

definition main :: "'c cloud \<Rightarrow> module \<Rightarrow> 'c \<Rightarrow> outcome \<times> 'c \<times> call list" where
  "main cloud m c = main_except (main_try cloud m c)"

section \<open>An in-memory cloud client\<close>

text \<open>
  A cloud client over lists of volumes and backups, to run the module on concrete inputs.
  A lookup finds the first object whose id or name is the one asked for; a backup must
  also belong to the volume of the \<^verbatim>\<open>volume_id\<close> filter when there is one. With
  \<open>Some e\<close> as its parameter, the three mutating operations raise \<open>e\<close>.
\<close>

record mem =
  volumes :: "volume list"
  backups :: "volume_backup list"

definition mem_get_volume :: "mem \<Rightarrow> string option \<Rightarrow> volume option" where
  "mem_get_volume c n = find (\<lambda>v. Some (vol_id v) = n \<or> Some (vol_name v) = n) (volumes c)"

definition mem_get_volume_backup :: "mem \<Rightarrow> string \<Rightarrow> filters \<Rightarrow> volume_backup option" where
  "mem_get_volume_backup c n flt =
     find (\<lambda>b. (bk_id b = n \<or> bk_name b = n) \<and>
               (case map_of flt ''volume_id'' of None \<Rightarrow> True | Some x \<Rightarrow> bk_volume_id b = x))
          (backups c)"

definition mem_create :: "mem \<Rightarrow> create_args \<Rightarrow> volume_backup \<times> mem" where
  "mem_create c a =
     (let b = \<lparr>bk_id = ''id-of-'' @ ca_name a, bk_name = ca_name a,
                bk_volume_id = ca_volume_id a\<rparr>
      in (b, c\<lparr>backups := b # backups c\<rparr>))"

definition mem_delete :: "mem \<Rightarrow> delete_args \<Rightarrow> bool \<times> mem" where
  "mem_delete c a =
     (True, c\<lparr>backups := filter (\<lambda>b. bk_id b \<noteq> da_name_or_id a) (backups c)\<rparr>)"

definition mem_restore :: "mem \<Rightarrow> restore_args \<Rightarrow> restore_result \<times> mem" where
  "mem_restore c a =
     (case ra_volume_id a of
        Some i \<Rightarrow>
          (\<lparr>rs_backup_id = ra_backup_id a, rs_volume_id = i,
            rs_volume_name = (case mem_get_volume c (Some i) of
                                Some v \<Rightarrow> vol_name v | None \<Rightarrow> [])\<rparr>, c)
      | None \<Rightarrow>
          (let n = (case ra_volume_name a of
                      Some n \<Rightarrow> n | None \<Rightarrow> ''restore_backup_'' @ ra_backup_id a);
               v = \<lparr>vol_id = ''id-of-'' @ n, vol_name = n\<rparr>
           in (\<lparr>rs_backup_id = ra_backup_id a, rs_volume_id = vol_id v, rs_volume_name = n\<rparr>,
               c\<lparr>volumes := v # volumes c\<rparr>)))"

definition mem_cloud :: "sdk_error option \<Rightarrow> mem cloud" where
  "mem_cloud failure =
     \<lparr>get_volume = (\<lambda>c n. Inr (mem_get_volume c n)),
      volume_exists = (\<lambda>c n. Inr (mem_get_volume c n \<noteq> None)),
      get_volume_backup = (\<lambda>c n flt. Inr (mem_get_volume_backup c n flt)),
      create_volume_backup = (\<lambda>c a.
         case failure of Some e \<Rightarrow> (Inl e, c)
         | None \<Rightarrow> (case mem_create c a of (b, c') \<Rightarrow> (Inr b, c'))),
      delete_volume_backup = (\<lambda>c a.
         case failure of Some e \<Rightarrow> (Inl e, c)
         | None \<Rightarrow> (case mem_delete c a of (r, c') \<Rightarrow> (Inr r, c'))),
      restore_volume_backup = (\<lambda>c a.
         case failure of Some e \<Rightarrow> (Inl e, c)
         | None \<Rightarrow> (case mem_restore c a of (r, c') \<Rightarrow> (Inr r, c')))\<rparr>"

text \<open>
  Concrete inputs: the parameters of the first example of the module's documentation
  (a backup \<^verbatim>\<open>b1\<close> of the volume \<^verbatim>\<open>v1\<close>), a cloud with the volume \<^verbatim>\<open>v1\<close> and no
  backup, and the same cloud with a backup \<^verbatim>\<open>b1\<close> of that volume.
\<close>

definition params1 :: module where
  "params1 =
     \<lparr>backup = ''b1'', display_description = None, source_volume = Some ''v1'',
      target_volume = None, mode = ModeBackup, force = True, state = Present,
      wait = True, timeout = 180, check_mode = False\<rparr>"

definition volume1 :: volume where
  "volume1 = \<lparr>vol_id = ''vid-1'', vol_name = ''v1''\<rparr>"

definition backup1 :: volume_backup where
  "backup1 = \<lparr>bk_id = ''bid-1'', bk_name = ''b1'', bk_volume_id = ''vid-1''\<rparr>"

definition cloud_empty :: mem where
  "cloud_empty = \<lparr>volumes = [volume1], backups = []\<rparr>"

definition cloud_backed_up :: mem where
  "cloud_backed_up = \<lparr>volumes = [volume1], backups = [backup1]\<rparr>"

text \<open>An HTTP error of the SDK: both handlers of the module match it.\<close>

definition http_error :: sdk_error where
  "http_error =
     \<lparr>is_HttpException = True, is_CloudException_or_Timeout = True,
      message = ''BadRequestException: 400'', details = Some ''Invalid request''\<rparr>"

text \<open>A timeout of the SDK: only the handler of \<^verbatim>\<open>main\<close> matches it.\<close>

definition timeout_error :: sdk_error where
  "timeout_error =
     \<lparr>is_HttpException = False, is_CloudException_or_Timeout = True,
      message = ''Timeout waiting for the backup'', details = None\<rparr>"

text \<open>
  What the idempotence of backup creation asks of the cloud client: after
  \<^verbatim>\<open>create_volume_backup\<close> has returned a backup, the volumes are found as before, and
  \<^verbatim>\<open>get_volume_backup\<close> with the name of the new backup, filtered by its volume, finds
  a backup.
\<close>

definition created_backup_is_found :: "'c cloud \<Rightarrow> bool" where
  "created_backup_is_found cloud \<longleftrightarrow>
     (\<forall>c a b c'. create_volume_backup cloud c a = (Inr b, c') \<longrightarrow>
        get_volume cloud c' = get_volume cloud c \<and>
        volume_exists cloud c' = volume_exists cloud c \<and>
        (\<exists>b'. get_volume_backup cloud c' (ca_name a) [(''volume_id'', ca_volume_id a)]
                = Inr (Some b')))"

section \<open>Properties\<close>

lemmas module_defs = main_def main_try_def present_volume_backup_def absent_volume_backup_def
  restore_volume_backup_m_def restore_target_def system_state_change_def quote_def Let_def

lemmas mem_defs = mem_cloud_def mem_get_volume_def mem_get_volume_backup_def mem_create_def
  mem_delete_def mem_restore_def params1_def volume1_def backup1_def cloud_empty_def
  cloud_backed_up_def http_error_def timeout_error_def

lemmas module_splits = sum.splits option.splits bool.splits prod.splits mode_t.splits
  state_t.splits py_exception.splits outcome.splits if_splits

lemmas path_splits = sum.splits option.splits bool.splits prod.splits if_splits

subsection \<open>Check mode\<close>

text \<open>
  C5: in check mode with \<^verbatim>\<open>mode=restore\<close> the module exits with \<^verbatim>\<open>skipped=True\<close> and a
  message saying that restore does not support check mode. It is neither a failure nor a
  report of a change, and no call at all is made on the cloud client, so
  \<^verbatim>\<open>restore_volume_backup\<close> is not invoked.
\<close>

theorem restore_check_mode_skipped:
  assumes "check_mode m" and "mode m = ModeRestore"
  shows "main cloud m c =
    (ExitJson [(''skipped'', VBool True),
               (''msg'', VStr ''mode 'restore' does not support check mode, skipping'')], c, [])"
  using assms by (simp add: main_def main_try_def)

theorem restore_check_mode_skipped_witness:
  "main (mem_cloud None) (params1\<lparr>mode := ModeRestore, check_mode := True\<rparr>) cloud_backed_up =
    (ExitJson [(''skipped'', VBool True),
               (''msg'', VStr ''mode 'restore' does not support check mode, skipping'')],
     cloud_backed_up, [])"
  using restore_check_mode_skipped [of "params1\<lparr>mode := ModeRestore, check_mode := True\<rparr>"
      "mem_cloud None" cloud_backed_up]
  by (simp add: params1_def)

text \<open>
  C10: in check mode with \<^verbatim>\<open>mode=backup\<close> the first call on the cloud client is
  \<^verbatim>\<open>get_volume(source_volume)\<close>, no call of \<^verbatim>\<open>volume_exists\<close> is made at all, and the
  \<^verbatim>\<open>id\<close> of what \<^verbatim>\<open>get_volume\<close> returned is read whatever it is. When
  \<^verbatim>\<open>get_volume\<close> returns no volume (as for an omitted \<^verbatim>\<open>source_volume\<close> or one that names
  no volume), the invocation ends with an \<^verbatim>\<open>AttributeError\<close> that no handler catches:
  it returns no \<^verbatim>\<open>changed\<close> and does not fail with the message of the missing volume.
  This holds for both values of \<^verbatim>\<open>state\<close>.
\<close>

theorem dry_run_dereferences_missing_volume:
  assumes "check_mode m" and "mode m = ModeBackup"
  shows "\<exists>out t. main cloud m c = (out, c, Get_volume (source_volume m) # t) \<and>
           (\<forall>x. Volume_exists x \<notin> set t) \<and>
           (get_volume cloud c (source_volume m) = Inr None \<longrightarrow>
              out = Raise AttributeError \<and> t = [])"
  using assms
  by (auto simp: module_defs split: sum.splits option.splits state_t.splits py_exception.splits)

theorem dry_run_dereferences_missing_volume_witness:
  "main (mem_cloud None) (params1\<lparr>check_mode := True, state := Absent, source_volume := None\<rparr>)
        cloud_backed_up =
    (Raise AttributeError, cloud_backed_up, [Get_volume None])"
  using dry_run_dereferences_missing_volume
    [of "params1\<lparr>check_mode := True, state := Absent, source_volume := None\<rparr>"
        "mem_cloud None" cloud_backed_up]
  by (auto simp: mem_defs)

text \<open>
  What the dry run of \<^verbatim>\<open>mode=backup\<close> returns when \<^verbatim>\<open>get_volume\<close> and
  \<^verbatim>\<open>get_volume_backup\<close> return: \<^verbatim>\<open>changed\<close> is true exactly when \<^verbatim>\<open>state\<close> is
  \<^verbatim>\<open>present\<close> and no backup of the resolved volume was found, or \<^verbatim>\<open>state\<close> is \<^verbatim>\<open>absent\<close>
  and one was found. The two lookups are the only calls.
\<close>

lemma dry_run_changed_when_volume_resolves:
  assumes "check_mode m" and "mode m = ModeBackup"
    and "get_volume cloud c (source_volume m) = Inr (Some v)"
    and "get_volume_backup cloud c (backup m) [(''volume_id'', vol_id v)] = Inr b"
  shows "main cloud m c =
    (ExitJson [(''changed'', VBool ((state m = Present) = (b = None)))], c,
     [Get_volume (source_volume m), Get_volume_backup (backup m) [(''volume_id'', vol_id v)]])"
  using assms by (cases "state m") (auto simp: module_defs)

text \<open>
  C4: in check mode with \<^verbatim>\<open>mode=backup\<close> the module should return \<^verbatim>\<open>changed\<close> equal to
  \<^verbatim>\<open>(state == present) == (no backup exists)\<close>, whatever the invocation. With
  \<^verbatim>\<open>state=absent\<close> and a \<^verbatim>\<open>source_volume\<close> that names no volume, on a cloud that holds the
  backup, the dry run makes one call, \<^verbatim>\<open>get_volume\<close>, and ends with an uncaught
  \<^verbatim>\<open>AttributeError\<close>: it returns no result. The same invocation outside check mode
  looks the backup up with the filter, finds none and exits with \<^verbatim>\<open>changed=False\<close>.
\<close>

theorem dry_run_unknown_volume_raises:
  "main (mem_cloud None)
        (params1\<lparr>check_mode := True, state := Absent, source_volume := Some ''ghost''\<rparr>)
        cloud_backed_up =
     (Raise AttributeError, cloud_backed_up, [Get_volume (Some ''ghost'')]) \<and>
   main (mem_cloud None) (params1\<lparr>state := Absent, source_volume := Some ''ghost''\<rparr>)
        cloud_backed_up =
     (ExitJson [(''changed'', VBool False)], cloud_backed_up,
      [Get_volume_backup ''b1'' [(''volume_id'', ''ghost'')]])"
  by (simp add: module_defs mem_defs)

subsection \<open>Creating a backup\<close>

text \<open>
  C6: outside check mode, with \<^verbatim>\<open>mode=backup\<close> and \<^verbatim>\<open>state=present\<close>, when
  \<^verbatim>\<open>volume_exists(source_volume)\<close> is false the module fails with the message
  \<^verbatim>\<open>No volume with name or id '...' was found.\<close>, and \<^verbatim>\<open>volume_exists\<close> is the only call
  made on the cloud client: no lookup of a backup, no mutating call.
\<close>

theorem present_unknown_volume_fails:
  assumes "\<not> check_mode m" and "mode m = ModeBackup" and "state m = Present"
    and "volume_exists cloud c (source_volume m) = Inr False"
  shows "main cloud m c =
    (FailJson (Some (''No volume with name or id '' @ [CHR 0x27] @ py_format (source_volume m)
                     @ [CHR 0x27] @ '' was found.'')),
     c, [Volume_exists (source_volume m)])"
  using assms by (simp add: main_def main_try_def quote_def)

theorem present_unknown_volume_fails_witness:
  "main (mem_cloud None) (params1\<lparr>source_volume := Some ''ghost''\<rparr>) cloud_backed_up =
    (FailJson (Some ''No volume with name or id 'ghost' was found.''),
     cloud_backed_up, [Volume_exists (Some ''ghost'')])"
  using present_unknown_volume_fails [of "params1\<lparr>source_volume := Some ''ghost''\<rparr>"
      "mem_cloud None" cloud_backed_up]
  by (simp add: mem_defs)

lemma present_creates:
  assumes "\<not> check_mode m" and "mode m = ModeBackup" and "state m = Present"
    and "volume_exists cloud c (source_volume m) = Inr True"
    and "get_volume cloud c (source_volume m) = Inr (Some v)"
    and "get_volume_backup cloud c (backup m) [(''volume_id'', vol_id v)] = Inr None"
  shows "\<exists>out c'. main cloud m c =
           (out, c', [Volume_exists (source_volume m), Get_volume (source_volume m),
                      Get_volume_backup (backup m) [(''volume_id'', vol_id v)],
                      Create_volume_backup
                        \<lparr>ca_volume_id = vol_id v, ca_force = force m, ca_wait = wait m,
                         ca_timeout = timeout m, ca_name = backup m,
                         ca_description = display_description m\<rparr>]) \<and>
           (\<forall>b c1. create_volume_backup cloud c
                        \<lparr>ca_volume_id = vol_id v, ca_force = force m, ca_wait = wait m,
                         ca_timeout = timeout m, ca_name = backup m,
                         ca_description = display_description m\<rparr> = (Inr b, c1) \<longrightarrow>
                    out = ExitJson [(''changed'', VBool True), (''backup'', VBackup b)] \<and>
                    c' = c1)"
  using assms by (auto simp: module_defs split: module_splits)

lemma present_exists:
  assumes "\<not> check_mode m" and "mode m = ModeBackup" and "state m = Present"
    and "volume_exists cloud c (source_volume m) = Inr True"
    and "get_volume cloud c (source_volume m) = Inr (Some v)"
    and "get_volume_backup cloud c (backup m) [(''volume_id'', vol_id v)] = Inr (Some b)"
  shows "main cloud m c =
           (ExitJson [(''changed'', VBool False), (''backup'', VBackup b)], c,
            [Volume_exists (source_volume m), Get_volume (source_volume m),
             Get_volume_backup (backup m) [(''volume_id'', vol_id v)]])"
  using assms by (simp add: module_defs)

text \<open>A run that creates or finds the backup ends in one of two ways.\<close>

lemma present_success_cases:
  assumes "\<not> check_mode m" and "mode m = ModeBackup" and "state m = Present"
    and "get_volume cloud c (source_volume m) = Inr (Some v)"
    and "main cloud m c = (ExitJson r, c', t)"
  shows "(\<exists>b. get_volume_backup cloud c (backup m) [(''volume_id'', vol_id v)] = Inr (Some b)
              \<and> c' = c) \<or>
         (\<exists>b. create_volume_backup cloud c
                 \<lparr>ca_volume_id = vol_id v, ca_force = force m, ca_wait = wait m,
                  ca_timeout = timeout m, ca_name = backup m,
                  ca_description = display_description m\<rparr> = (Inr b, c'))"
  using assms by (auto simp: module_defs split: module_splits)

lemma present_idempotent:
  assumes m: "\<not> check_mode m" "mode m = ModeBackup" "state m = Present"
    and ex: "volume_exists cloud c (source_volume m) = Inr True"
    and gv: "get_volume cloud c (source_volume m) = Inr (Some v)"
    and law: "created_backup_is_found cloud"
    and run: "main cloud m c = (ExitJson r, c', t)"
  shows "\<exists>b. main cloud m c' =
           (ExitJson [(''changed'', VBool False), (''backup'', VBackup b)], c',
            [Volume_exists (source_volume m), Get_volume (source_volume m),
             Get_volume_backup (backup m) [(''volume_id'', vol_id v)]])"
proof -
  let ?args = "\<lparr>ca_volume_id = vol_id v, ca_force = force m, ca_wait = wait m,
                 ca_timeout = timeout m, ca_name = backup m,
                 ca_description = display_description m\<rparr>"
  from present_success_cases [OF m gv run]
  consider (found) b where
      "get_volume_backup cloud c (backup m) [(''volume_id'', vol_id v)] = Inr (Some b)" "c' = c"
    | (created) b where "create_volume_backup cloud c ?args = (Inr b, c')"
    by blast
  then show ?thesis
  proof cases
    case found
    with present_exists [OF m ex gv] show ?thesis by blast
  next
    case created
    with law have reads: "get_volume cloud c' = get_volume cloud c"
        "volume_exists cloud c' = volume_exists cloud c"
      and "\<exists>b'. get_volume_backup cloud c' (ca_name ?args) [(''volume_id'', ca_volume_id ?args)]
                 = Inr (Some b')"
      unfolding created_backup_is_found_def by blast+
    then obtain b' where
      "get_volume_backup cloud c' (backup m) [(''volume_id'', vol_id v)] = Inr (Some b')"
      by auto
    moreover from ex gv reads have "volume_exists cloud c' (source_volume m) = Inr True"
      and "get_volume cloud c' (source_volume m) = Inr (Some v)"
      by simp_all
    ultimately show ?thesis
      using present_exists [OF m, of cloud c' v b'] by blast
  qed
qed

lemma mem_cloud_created_backup_is_found: "created_backup_is_found (mem_cloud None)"
  unfolding created_backup_is_found_def
  by (auto simp: mem_cloud_def mem_create_def mem_get_volume_def mem_get_volume_backup_def
      Let_def)

text \<open>
  C1, as stated for every invocation with \<^verbatim>\<open>mode=backup\<close> and \<^verbatim>\<open>state=present\<close>, fails
  in check mode: with the volume \<^verbatim>\<open>v1\<close> resolved and no backup \<^verbatim>\<open>b1\<close> of it, the module
  exits with \<^verbatim>\<open>changed=True\<close> alone, after the two lookups, and \<^verbatim>\<open>create_volume_backup\<close>
  is not invoked.
\<close>

theorem present_check_mode_counterexample:
  "mode (params1\<lparr>check_mode := True\<rparr>) = ModeBackup \<and>
   state (params1\<lparr>check_mode := True\<rparr>) = Present \<and>
   get_volume (mem_cloud None) cloud_empty (Some ''v1'') = Inr (Some volume1) \<and>
   get_volume_backup (mem_cloud None) cloud_empty ''b1'' [(''volume_id'', ''vid-1'')] = Inr None \<and>
   main (mem_cloud None) (params1\<lparr>check_mode := True\<rparr>) cloud_empty =
     (ExitJson [(''changed'', VBool True)], cloud_empty,
      [Get_volume (Some ''v1''), Get_volume_backup ''b1'' [(''volume_id'', ''vid-1'')]])"
  by (simp add: module_defs mem_defs)

text \<open>
  C1, amended: outside check mode, with \<^verbatim>\<open>mode=backup\<close>, \<^verbatim>\<open>state=present\<close> and a source
  volume that \<^verbatim>\<open>volume_exists\<close> and \<^verbatim>\<open>get_volume\<close> resolve to \<open>v\<close>:
  \<^item> if the lookup of the backup, filtered by the id of \<open>v\<close>, finds none, the calls are the
    three lookups and then one \<^verbatim>\<open>create_volume_backup\<close>, with the id of \<open>v\<close>,
    \<^verbatim>\<open>force\<close>, \<^verbatim>\<open>wait\<close>, \<^verbatim>\<open>timeout\<close>, the backup name and \<^verbatim>\<open>display_description\<close>; when
    that call returns a backup, the module exits with \<^verbatim>\<open>changed=True\<close> and that backup;
  \<^item> if the lookup finds a backup, the calls are the three lookups only, the cloud is
    unchanged and the module exits with \<^verbatim>\<open>changed=False\<close> and the backup found;
  \<^item> on a cloud client that finds the backups it has created, after a run that exited
    with \<^verbatim>\<open>exit_json\<close> a second run on the resulting cloud exits with \<^verbatim>\<open>changed=False\<close>
    and makes the three lookups only.
\<close>

theorem present_backup_created_once:
  assumes "\<not> check_mode m" and "mode m = ModeBackup" and "state m = Present"
    and "volume_exists cloud c (source_volume m) = Inr True"
    and "get_volume cloud c (source_volume m) = Inr (Some v)"
  shows "(get_volume_backup cloud c (backup m) [(''volume_id'', vol_id v)] = Inr None \<longrightarrow>
           (\<exists>out c'. main cloud m c =
              (out, c', [Volume_exists (source_volume m), Get_volume (source_volume m),
                         Get_volume_backup (backup m) [(''volume_id'', vol_id v)],
                         Create_volume_backup
                           \<lparr>ca_volume_id = vol_id v, ca_force = force m, ca_wait = wait m,
                            ca_timeout = timeout m, ca_name = backup m,
                            ca_description = display_description m\<rparr>]) \<and>
              (\<forall>b c1. create_volume_backup cloud c
                           \<lparr>ca_volume_id = vol_id v, ca_force = force m, ca_wait = wait m,
                            ca_timeout = timeout m, ca_name = backup m,
                            ca_description = display_description m\<rparr> = (Inr b, c1) \<longrightarrow>
                 out = ExitJson [(''changed'', VBool True), (''backup'', VBackup b)] \<and>
                 c' = c1))) \<and>
         (\<forall>b. get_volume_backup cloud c (backup m) [(''volume_id'', vol_id v)] = Inr (Some b) \<longrightarrow>
            main cloud m c =
              (ExitJson [(''changed'', VBool False), (''backup'', VBackup b)], c,
               [Volume_exists (source_volume m), Get_volume (source_volume m),
                Get_volume_backup (backup m) [(''volume_id'', vol_id v)]])) \<and>
         (created_backup_is_found cloud \<longrightarrow>
            (\<forall>r c' t. main cloud m c = (ExitJson r, c', t) \<longrightarrow>
               (\<exists>b. main cloud m c' =
                  (ExitJson [(''changed'', VBool False), (''backup'', VBackup b)], c',
                   [Volume_exists (source_volume m), Get_volume (source_volume m),
                    Get_volume_backup (backup m) [(''volume_id'', vol_id v)]]))))"
proof (intro conjI impI allI)
  assume "get_volume_backup cloud c (backup m) [(''volume_id'', vol_id v)] = Inr None"
  with assms show "\<exists>out c'. main cloud m c =
              (out, c', [Volume_exists (source_volume m), Get_volume (source_volume m),
                         Get_volume_backup (backup m) [(''volume_id'', vol_id v)],
                         Create_volume_backup
                           \<lparr>ca_volume_id = vol_id v, ca_force = force m, ca_wait = wait m,
                            ca_timeout = timeout m, ca_name = backup m,
                            ca_description = display_description m\<rparr>]) \<and>
              (\<forall>b c1. create_volume_backup cloud c
                           \<lparr>ca_volume_id = vol_id v, ca_force = force m, ca_wait = wait m,
                            ca_timeout = timeout m, ca_name = backup m,
                            ca_description = display_description m\<rparr> = (Inr b, c1) \<longrightarrow>
                 out = ExitJson [(''changed'', VBool True), (''backup'', VBackup b)] \<and>
                 c' = c1)"
    by (rule present_creates)
next
  fix b
  assume "get_volume_backup cloud c (backup m) [(''volume_id'', vol_id v)] = Inr (Some b)"
  with assms show "main cloud m c =
              (ExitJson [(''changed'', VBool False), (''backup'', VBackup b)], c,
               [Volume_exists (source_volume m), Get_volume (source_volume m),
                Get_volume_backup (backup m) [(''volume_id'', vol_id v)]])"
    by (rule present_exists)
next
  fix r c' t
  assume "created_backup_is_found cloud" and "main cloud m c = (ExitJson r, c', t)"
  with assms show "\<exists>b. main cloud m c' =
                  (ExitJson [(''changed'', VBool False), (''backup'', VBackup b)], c',
                   [Volume_exists (source_volume m), Get_volume (source_volume m),
                    Get_volume_backup (backup m) [(''volume_id'', vol_id v)]])"
    by (rule present_idempotent)
qed

theorem present_backup_created_once_witness:
  "main (mem_cloud None) params1 cloud_empty =
     (ExitJson [(''changed'', VBool True),
                (''backup'', VBackup \<lparr>bk_id = ''id-of-b1'', bk_name = ''b1'',
                                      bk_volume_id = ''vid-1''\<rparr>)],
      \<lparr>volumes = [volume1],
       backups = [\<lparr>bk_id = ''id-of-b1'', bk_name = ''b1'', bk_volume_id = ''vid-1''\<rparr>]\<rparr>,
      [Volume_exists (Some ''v1''), Get_volume (Some ''v1''),
       Get_volume_backup ''b1'' [(''volume_id'', ''vid-1'')],
       Create_volume_backup
         \<lparr>ca_volume_id = ''vid-1'', ca_force = True, ca_wait = True, ca_timeout = 180,
          ca_name = ''b1'', ca_description = None\<rparr>]) \<and>
   main (mem_cloud None) params1
        \<lparr>volumes = [volume1],
         backups = [\<lparr>bk_id = ''id-of-b1'', bk_name = ''b1'', bk_volume_id = ''vid-1''\<rparr>]\<rparr> =
     (ExitJson [(''changed'', VBool False),
                (''backup'', VBackup \<lparr>bk_id = ''id-of-b1'', bk_name = ''b1'',
                                      bk_volume_id = ''vid-1''\<rparr>)],
      \<lparr>volumes = [volume1],
       backups = [\<lparr>bk_id = ''id-of-b1'', bk_name = ''b1'', bk_volume_id = ''vid-1''\<rparr>]\<rparr>,
      [Volume_exists (Some ''v1''), Get_volume (Some ''v1''),
       Get_volume_backup ''b1'' [(''volume_id'', ''vid-1'')]]) \<and>
   main (mem_cloud None) params1 cloud_backed_up =
     (ExitJson [(''changed'', VBool False), (''backup'', VBackup backup1)], cloud_backed_up,
      [Volume_exists (Some ''v1''), Get_volume (Some ''v1''),
       Get_volume_backup ''b1'' [(''volume_id'', ''vid-1'')]])"
  using present_backup_created_once [where m = params1 and cloud = "mem_cloud None"
      and c = cloud_empty and v = volume1]
    present_backup_created_once [where m = params1 and cloud = "mem_cloud None"
      and c = cloud_backed_up and v = volume1]
    mem_cloud_created_backup_is_found
  by (simp add: module_defs mem_defs)

subsection \<open>Deleting a backup\<close>

text \<open>
  C2, as stated for every invocation with \<^verbatim>\<open>mode=backup\<close> and \<^verbatim>\<open>state=absent\<close>, fails in
  check mode: with the backup \<^verbatim>\<open>b1\<close> of the volume \<^verbatim>\<open>vid-1\<close> in the cloud, the module
  exits with \<^verbatim>\<open>changed=True\<close> alone, after two lookups: \<^verbatim>\<open>delete_volume_backup\<close> is not
  invoked and the result carries no \<^verbatim>\<open>backup_id\<close>.
\<close>

theorem absent_check_mode_counterexample:
  "mode (params1\<lparr>check_mode := True, state := Absent, source_volume := Some ''vid-1''\<rparr>)
     = ModeBackup \<and>
   state (params1\<lparr>check_mode := True, state := Absent, source_volume := Some ''vid-1''\<rparr>)
     = Absent \<and>
   get_volume_backup (mem_cloud None) cloud_backed_up ''b1''
       (source_volume_filters (Some ''vid-1'')) = Inr (Some backup1) \<and>
   main (mem_cloud None)
        (params1\<lparr>check_mode := True, state := Absent, source_volume := Some ''vid-1''\<rparr>)
        cloud_backed_up =
     (ExitJson [(''changed'', VBool True)], cloud_backed_up,
      [Get_volume (Some ''vid-1''), Get_volume_backup ''b1'' [(''volume_id'', ''vid-1'')]])"
  by (simp add: module_defs mem_defs)

text \<open>
  C2, amended: outside check mode, with \<^verbatim>\<open>mode=backup\<close> and \<^verbatim>\<open>state=absent\<close>, the backup
  is looked up by name, with \<^verbatim>\<open>volume_id\<close> set to \<^verbatim>\<open>source_volume\<close> in the filters when
  that parameter is given and not empty:
  \<^item> if the lookup finds none, it is the only call, the cloud is unchanged and the module
    exits with \<^verbatim>\<open>changed=False\<close>;
  \<^item> if the lookup finds a backup, the calls are the lookup and then one
    \<^verbatim>\<open>delete_volume_backup\<close> on the id of that backup, with \<^verbatim>\<open>wait\<close> and \<^verbatim>\<open>timeout\<close>;
    when that call returns, the module exits with \<^verbatim>\<open>changed=True\<close> and that id as
    \<^verbatim>\<open>backup_id\<close>.
\<close>

theorem absent_backup_deleted_once:
  assumes "\<not> check_mode m" and "mode m = ModeBackup" and "state m = Absent"
  shows "(get_volume_backup cloud c (backup m) (source_volume_filters (source_volume m))
            = Inr None \<longrightarrow>
            main cloud m c =
              (ExitJson [(''changed'', VBool False)], c,
               [Get_volume_backup (backup m) (source_volume_filters (source_volume m))])) \<and>
         (\<forall>b. get_volume_backup cloud c (backup m) (source_volume_filters (source_volume m))
                 = Inr (Some b) \<longrightarrow>
            (\<exists>out c'. main cloud m c =
               (out, c', [Get_volume_backup (backup m) (source_volume_filters (source_volume m)),
                          Delete_volume_backup
                            \<lparr>da_name_or_id = bk_id b, da_wait = wait m,
                             da_timeout = timeout m\<rparr>]) \<and>
               (\<forall>r c1. delete_volume_backup cloud c
                          \<lparr>da_name_or_id = bk_id b, da_wait = wait m, da_timeout = timeout m\<rparr>
                        = (Inr r, c1) \<longrightarrow>
                  out = ExitJson [(''changed'', VBool True), (''backup_id'', VStr (bk_id b))] \<and>
                  c' = c1)))"
  using assms by (auto simp: module_defs split: path_splits)

theorem absent_backup_deleted_once_witness:
  "main (mem_cloud None) (params1\<lparr>state := Absent, source_volume := None\<rparr>) cloud_backed_up =
     (ExitJson [(''changed'', VBool True), (''backup_id'', VStr ''bid-1'')], cloud_empty,
      [Get_volume_backup ''b1'' [],
       Delete_volume_backup \<lparr>da_name_or_id = ''bid-1'', da_wait = True, da_timeout = 180\<rparr>]) \<and>
   main (mem_cloud None) (params1\<lparr>state := Absent, source_volume := None\<rparr>) cloud_empty =
     (ExitJson [(''changed'', VBool False)], cloud_empty, [Get_volume_backup ''b1'' []])"
  using absent_backup_deleted_once
      [where m = "params1\<lparr>state := Absent, source_volume := None\<rparr>"
         and cloud = "mem_cloud None" and c = cloud_backed_up]
    absent_backup_deleted_once
      [where m = "params1\<lparr>state := Absent, source_volume := None\<rparr>"
         and cloud = "mem_cloud None" and c = cloud_empty]
  by (simp add: module_defs mem_defs)

subsection \<open>Restoring a backup\<close>

text \<open>
  C3, as stated, fails when \<^verbatim>\<open>restore_volume_backup\<close> raises: outside check mode, with the
  backup \<^verbatim>\<open>b1\<close> found, the call is made once, but the handler of \<^verbatim>\<open>main\<close> turns the
  timeout it raises into a failure, so the result is not \<^verbatim>\<open>changed=True\<close> with a restore
  result.
\<close>

theorem restore_error_counterexample:
  "mode (params1\<lparr>mode := ModeRestore, source_volume := None\<rparr>) = ModeRestore \<and>
   check_mode (params1\<lparr>mode := ModeRestore, source_volume := None\<rparr>) = False \<and>
   get_volume_backup (mem_cloud (Some timeout_error)) cloud_backed_up ''b1''
       (source_volume_filters None) = Inr (Some backup1) \<and>
   main (mem_cloud (Some timeout_error)) (params1\<lparr>mode := ModeRestore, source_volume := None\<rparr>)
        cloud_backed_up =
     (FailJson (Some ''Timeout waiting for the backup''), cloud_backed_up,
      [Get_volume_backup ''b1'' [],
       Restore_volume_backup
         \<lparr>ra_backup_id = ''bid-1'', ra_volume_name = None, ra_volume_id = None,
          ra_wait = True, ra_timeout = 180\<rparr>])"
  by (simp add: module_defs mem_defs)

text \<open>
  C3, amended: outside check mode, with \<^verbatim>\<open>mode=restore\<close>, once the target volume is
  settled (no \<^verbatim>\<open>target_volume\<close> given, or \<^verbatim>\<open>volume_exists\<close> false of it, or
  \<^verbatim>\<open>volume_exists\<close> true of it and \<^verbatim>\<open>get_volume\<close> returning the volume; \<open>tt\<close> are the
  calls this takes, \<open>vid\<close> and \<open>vname\<close> the \<^verbatim>\<open>volume_id\<close> and \<^verbatim>\<open>volume_name\<close> it
  gives), the backup is looked up by name, with \<^verbatim>\<open>volume_id\<close> set to \<^verbatim>\<open>source_volume\<close> in
  the filters when that parameter is given and not empty, and
  \<^item> if the lookup finds none, the module fails with the message
    \<^verbatim>\<open>No backup name or id '...' was found.\<close>, the cloud is unchanged and the lookup is the
    last call: no mutating call is made;
  \<^item> if the lookup finds a backup, one more call follows, \<^verbatim>\<open>restore_volume_backup\<close> on
    the id of that backup with \<^verbatim>\<open>wait\<close> and \<^verbatim>\<open>timeout\<close>; when that call returns, the
    module exits with \<^verbatim>\<open>changed=True\<close> and what the call returned as \<^verbatim>\<open>restore\<close>.
\<close>

theorem restore_backup_lookup:
  assumes "\<not> check_mode m" and "mode m = ModeRestore"
    and "(\<not> truthy (target_volume m) \<and> tt = [] \<and> vid = None \<and> vname = None) \<or>
         (truthy (target_volume m) \<and>
          volume_exists cloud c (target_volume m) = Inr False \<and>
          tt = [Volume_exists (target_volume m)] \<and> vid = None \<and> vname = target_volume m) \<or>
         (truthy (target_volume m) \<and>
          volume_exists cloud c (target_volume m) = Inr True \<and>
          get_volume cloud c (target_volume m) = Inr (Some v) \<and>
          tt = [Volume_exists (target_volume m), Get_volume (target_volume m)] \<and>
          vid = Some (vol_id v) \<and> vname = None)"
  shows "(get_volume_backup cloud c (backup m) (source_volume_filters (source_volume m))
            = Inr None \<longrightarrow>
            main cloud m c =
              (FailJson (Some (''No backup name or id '' @ [CHR 0x27] @ backup m @ [CHR 0x27]
                               @ '' was found.'')),
               c,
               tt @ [Get_volume_backup (backup m) (source_volume_filters (source_volume m))])) \<and>
         (\<forall>b. get_volume_backup cloud c (backup m) (source_volume_filters (source_volume m))
                 = Inr (Some b) \<longrightarrow>
            (\<exists>out c'. main cloud m c =
               (out, c',
                tt @ [Get_volume_backup (backup m) (source_volume_filters (source_volume m)),
                      Restore_volume_backup
                        \<lparr>ra_backup_id = bk_id b, ra_volume_name = vname, ra_volume_id = vid,
                         ra_wait = wait m, ra_timeout = timeout m\<rparr>]) \<and>
               (\<forall>r c1. restore_volume_backup cloud c
                          \<lparr>ra_backup_id = bk_id b, ra_volume_name = vname, ra_volume_id = vid,
                           ra_wait = wait m, ra_timeout = timeout m\<rparr> = (Inr r, c1) \<longrightarrow>
                  out = ExitJson [(''changed'', VBool True), (''restore'', VRestore r)] \<and>
                  c' = c1)))"
  using assms by (auto simp: module_defs split: path_splits)

theorem restore_backup_lookup_witness:
  "main (mem_cloud None) (params1\<lparr>mode := ModeRestore, source_volume := None\<rparr>) cloud_empty =
     (FailJson (Some ''No backup name or id 'b1' was found.''), cloud_empty,
      [Get_volume_backup ''b1'' []]) \<and>
   main (mem_cloud None) (params1\<lparr>mode := ModeRestore, source_volume := None\<rparr>)
        cloud_backed_up =
     (ExitJson [(''changed'', VBool True),
                (''restore'', VRestore \<lparr>rs_backup_id = ''bid-1'',
                                        rs_volume_id = ''id-of-restore_backup_bid-1'',
                                        rs_volume_name = ''restore_backup_bid-1''\<rparr>)],
      \<lparr>volumes = [\<lparr>vol_id = ''id-of-restore_backup_bid-1'',
                    vol_name = ''restore_backup_bid-1''\<rparr>, volume1],
       backups = [backup1]\<rparr>,
      [Get_volume_backup ''b1'' [],
       Restore_volume_backup
         \<lparr>ra_backup_id = ''bid-1'', ra_volume_name = None, ra_volume_id = None,
          ra_wait = True, ra_timeout = 180\<rparr>])"
  using restore_backup_lookup
      [where m = "params1\<lparr>mode := ModeRestore, source_volume := None\<rparr>"
         and cloud = "mem_cloud None" and c = cloud_empty
         and tt = "[]" and vid = None and vname = None and v = volume1]
    restore_backup_lookup
      [where m = "params1\<lparr>mode := ModeRestore, source_volume := None\<rparr>"
         and cloud = "mem_cloud None" and c = cloud_backed_up
         and tt = "[]" and vid = None and vname = None and v = volume1]
  by (simp add: module_defs mem_defs)

text \<open>
  C7, as stated for every invocation with \<^verbatim>\<open>mode=restore\<close> and \<^verbatim>\<open>target_volume\<close> given,
  fails in two ways, with \<^verbatim>\<open>target_volume\<close> naming the existing volume \<^verbatim>\<open>v1\<close>: in check
  mode the module exits as skipped without any call, and outside check mode on a cloud
  without the backup it fails after the lookups. In neither run is
  \<^verbatim>\<open>restore_volume_backup\<close> invoked.
\<close>

theorem restore_not_invoked_counterexample:
  "main (mem_cloud None)
        (params1\<lparr>mode := ModeRestore, source_volume := None, target_volume := Some ''v1'',
                  check_mode := True\<rparr>)
        cloud_backed_up =
     (ExitJson [(''skipped'', VBool True),
                (''msg'', VStr ''mode 'restore' does not support check mode, skipping'')],
      cloud_backed_up, []) \<and>
   main (mem_cloud None)
        (params1\<lparr>mode := ModeRestore, source_volume := None, target_volume := Some ''v1''\<rparr>)
        cloud_empty =
     (FailJson (Some ''No backup name or id 'b1' was found.''), cloud_empty,
      [Volume_exists (Some ''v1''), Get_volume (Some ''v1''), Get_volume_backup ''b1'' []])"
  by (simp add: module_defs mem_defs)

text \<open>
  C7, amended: outside check mode, with \<^verbatim>\<open>mode=restore\<close> and a backup found by the lookup
  (by name, with \<^verbatim>\<open>volume_id\<close> set to \<^verbatim>\<open>source_volume\<close> in the filters when that parameter
  is given and not empty), \<^verbatim>\<open>restore_volume_backup\<close> is invoked once, as the last call, on
  the id of that backup with \<^verbatim>\<open>wait\<close> and \<^verbatim>\<open>timeout\<close>, and
  \<^item> with \<^verbatim>\<open>target_volume\<close> given (and not empty), \<^verbatim>\<open>volume_exists\<close> true of it and
    \<^verbatim>\<open>get_volume\<close> returning the volume, \<^verbatim>\<open>volume_id\<close> is the id of that volume and
    \<^verbatim>\<open>volume_name\<close> is \<^verbatim>\<open>None\<close>;
  \<^item> with \<^verbatim>\<open>target_volume\<close> given and \<^verbatim>\<open>volume_exists\<close> false of it, \<^verbatim>\<open>volume_name\<close> is
    \<^verbatim>\<open>target_volume\<close> as it is and \<^verbatim>\<open>volume_id\<close> is \<^verbatim>\<open>None\<close>;
  \<^item> without \<^verbatim>\<open>target_volume\<close> (or with an empty one), both are \<^verbatim>\<open>None\<close>.
\<close>

theorem restore_target_arguments:
  assumes "\<not> check_mode m" and "mode m = ModeRestore"
    and "get_volume_backup cloud c (backup m) (source_volume_filters (source_volume m))
           = Inr (Some b)"
  shows "(truthy (target_volume m) \<and>
          volume_exists cloud c (target_volume m) = Inr True \<and>
          get_volume cloud c (target_volume m) = Inr (Some v) \<longrightarrow>
            (\<exists>out c'. main cloud m c =
               (out, c',
                [Volume_exists (target_volume m), Get_volume (target_volume m),
                 Get_volume_backup (backup m) (source_volume_filters (source_volume m)),
                 Restore_volume_backup
                   \<lparr>ra_backup_id = bk_id b, ra_volume_name = None,
                    ra_volume_id = Some (vol_id v), ra_wait = wait m,
                    ra_timeout = timeout m\<rparr>]))) \<and>
         (truthy (target_volume m) \<and>
          volume_exists cloud c (target_volume m) = Inr False \<longrightarrow>
            (\<exists>out c'. main cloud m c =
               (out, c',
                [Volume_exists (target_volume m),
                 Get_volume_backup (backup m) (source_volume_filters (source_volume m)),
                 Restore_volume_backup
                   \<lparr>ra_backup_id = bk_id b, ra_volume_name = target_volume m,
                    ra_volume_id = None, ra_wait = wait m, ra_timeout = timeout m\<rparr>]))) \<and>
         (\<not> truthy (target_volume m) \<longrightarrow>
            (\<exists>out c'. main cloud m c =
               (out, c',
                [Get_volume_backup (backup m) (source_volume_filters (source_volume m)),
                 Restore_volume_backup
                   \<lparr>ra_backup_id = bk_id b, ra_volume_name = None, ra_volume_id = None,
                    ra_wait = wait m, ra_timeout = timeout m\<rparr>])))"
  using assms by (auto simp: module_defs split: path_splits)

theorem restore_target_arguments_witness:
  "main (mem_cloud None)
        (params1\<lparr>mode := ModeRestore, source_volume := None, target_volume := Some ''v1''\<rparr>)
        cloud_backed_up =
     (ExitJson [(''changed'', VBool True),
                (''restore'', VRestore \<lparr>rs_backup_id = ''bid-1'', rs_volume_id = ''vid-1'',
                                        rs_volume_name = ''v1''\<rparr>)],
      cloud_backed_up,
      [Volume_exists (Some ''v1''), Get_volume (Some ''v1''), Get_volume_backup ''b1'' [],
       Restore_volume_backup
         \<lparr>ra_backup_id = ''bid-1'', ra_volume_name = None, ra_volume_id = Some ''vid-1'',
          ra_wait = True, ra_timeout = 180\<rparr>]) \<and>
   main (mem_cloud None)
        (params1\<lparr>mode := ModeRestore, source_volume := None,
                  target_volume := Some ''brand-new-name''\<rparr>)
        cloud_backed_up =
     (ExitJson [(''changed'', VBool True),
                (''restore'', VRestore \<lparr>rs_backup_id = ''bid-1'',
                                        rs_volume_id = ''id-of-brand-new-name'',
                                        rs_volume_name = ''brand-new-name''\<rparr>)],
      \<lparr>volumes = [\<lparr>vol_id = ''id-of-brand-new-name'', vol_name = ''brand-new-name''\<rparr>,
                  volume1],
       backups = [backup1]\<rparr>,
      [Volume_exists (Some ''brand-new-name''), Get_volume_backup ''b1'' [],
       Restore_volume_backup
         \<lparr>ra_backup_id = ''bid-1'', ra_volume_name = Some ''brand-new-name'',
          ra_volume_id = None, ra_wait = True, ra_timeout = 180\<rparr>]) \<and>
   main (mem_cloud None)
        (params1\<lparr>mode := ModeRestore, source_volume := None, target_volume := Some []\<rparr>)
        cloud_backed_up =
     (ExitJson [(''changed'', VBool True),
                (''restore'', VRestore \<lparr>rs_backup_id = ''bid-1'',
                                        rs_volume_id = ''id-of-restore_backup_bid-1'',
                                        rs_volume_name = ''restore_backup_bid-1''\<rparr>)],
      \<lparr>volumes = [\<lparr>vol_id = ''id-of-restore_backup_bid-1'',
                    vol_name = ''restore_backup_bid-1''\<rparr>, volume1],
       backups = [backup1]\<rparr>,
      [Get_volume_backup ''b1'' [],
       Restore_volume_backup
         \<lparr>ra_backup_id = ''bid-1'', ra_volume_name = None, ra_volume_id = None,
          ra_wait = True, ra_timeout = 180\<rparr>])"
  using restore_target_arguments
      [where m = "params1\<lparr>mode := ModeRestore, source_volume := None,
                          target_volume := Some ''v1''\<rparr>"
         and cloud = "mem_cloud None" and c = cloud_backed_up and b = backup1 and v = volume1]
    restore_target_arguments
      [where m = "params1\<lparr>mode := ModeRestore, source_volume := None,
                          target_volume := Some ''brand-new-name''\<rparr>"
         and cloud = "mem_cloud None" and c = cloud_backed_up and b = backup1 and v = volume1]
    restore_target_arguments
      [where m = "params1\<lparr>mode := ModeRestore, source_volume := None,
                          target_volume := Some []\<rparr>"
         and cloud = "mem_cloud None" and c = cloud_backed_up and b = backup1 and v = volume1]
  by (simp add: module_defs mem_defs)

subsection \<open>Errors of the cloud client\<close>

text \<open>
  C8, as stated, fails for \<^verbatim>\<open>delete_volume_backup\<close> (and for \<^verbatim>\<open>restore_volume_backup\<close>):
  when the call raises an HTTP error of the SDK, the handler of \<^verbatim>\<open>main\<close> reports the
  attribute \<^verbatim>\<open>message\<close> of the error, not its \<^verbatim>\<open>details\<close>.
\<close>

theorem delete_error_message_counterexample:
  "is_HttpException http_error \<and> details http_error = Some ''Invalid request'' \<and>
   main (mem_cloud (Some http_error)) (params1\<lparr>state := Absent, source_volume := None\<rparr>)
        cloud_backed_up =
     (FailJson (Some ''BadRequestException: 400''), cloud_backed_up,
      [Get_volume_backup ''b1'' [],
       Delete_volume_backup \<lparr>da_name_or_id = ''bid-1'', da_wait = True, da_timeout = 180\<rparr>])"
  by (simp add: module_defs mem_defs)

text \<open>
  C8, amended: in every invocation,
  \<^item> when \<^verbatim>\<open>create_volume_backup\<close> raises an error that is an \<^verbatim>\<open>HttpException\<close>, the
    module fails with the \<^verbatim>\<open>details\<close> of the error as message; when it raises another
    error that is an \<^verbatim>\<open>OpenStackCloudException\<close> or a \<^verbatim>\<open>ResourceTimeout\<close>, the module fails
    with the \<^verbatim>\<open>message\<close> of the error;
  \<^item> when \<^verbatim>\<open>delete_volume_backup\<close> or \<^verbatim>\<open>restore_volume_backup\<close> raises an error that is
    an \<^verbatim>\<open>OpenStackCloudException\<close> or a \<^verbatim>\<open>ResourceTimeout\<close>, the module fails with the
    \<^verbatim>\<open>message\<close> of the error;
  \<^item> in each case the call that raised is the only mutating call of the run: it is not
    tried again, and the cloud is left as that call left it.
\<close>

theorem mutation_errors_reported:
  assumes "main cloud m c = (out, c', t)"
  shows "(\<forall>a e c1. Create_volume_backup a \<in> set t \<and>
                   create_volume_backup cloud c a = (Inl e, c1) \<longrightarrow>
            filter is_mutating t = [Create_volume_backup a] \<and> c' = c1 \<and>
            (is_HttpException e \<longrightarrow> out = FailJson (details e)) \<and>
            (\<not> is_HttpException e \<and> is_CloudException_or_Timeout e \<longrightarrow>
               out = FailJson (Some (message e)))) \<and>
         (\<forall>a e c1. Delete_volume_backup a \<in> set t \<and>
                   delete_volume_backup cloud c a = (Inl e, c1) \<longrightarrow>
            filter is_mutating t = [Delete_volume_backup a] \<and> c' = c1 \<and>
            (is_CloudException_or_Timeout e \<longrightarrow> out = FailJson (Some (message e)))) \<and>
         (\<forall>a e c1. Restore_volume_backup a \<in> set t \<and>
                   restore_volume_backup cloud c a = (Inl e, c1) \<longrightarrow>
            filter is_mutating t = [Restore_volume_backup a] \<and> c' = c1 \<and>
            (is_CloudException_or_Timeout e \<longrightarrow> out = FailJson (Some (message e))))"
  using assms
  by (cases "mode m"; cases "check_mode m"; cases "state m";
      auto simp: module_defs split: path_splits)

theorem mutation_errors_reported_witness:
  "main (mem_cloud (Some http_error)) params1 cloud_empty =
     (FailJson (Some ''Invalid request''), cloud_empty,
      [Volume_exists (Some ''v1''), Get_volume (Some ''v1''),
       Get_volume_backup ''b1'' [(''volume_id'', ''vid-1'')],
       Create_volume_backup
         \<lparr>ca_volume_id = ''vid-1'', ca_force = True, ca_wait = True, ca_timeout = 180,
          ca_name = ''b1'', ca_description = None\<rparr>]) \<and>
   main (mem_cloud (Some timeout_error)) params1 cloud_empty =
     (FailJson (Some ''Timeout waiting for the backup''), cloud_empty,
      [Volume_exists (Some ''v1''), Get_volume (Some ''v1''),
       Get_volume_backup ''b1'' [(''volume_id'', ''vid-1'')],
       Create_volume_backup
         \<lparr>ca_volume_id = ''vid-1'', ca_force = True, ca_wait = True, ca_timeout = 180,
          ca_name = ''b1'', ca_description = None\<rparr>]) \<and>
   main (mem_cloud (Some timeout_error)) (params1\<lparr>state := Absent, source_volume := None\<rparr>)
        cloud_backed_up =
     (FailJson (Some ''Timeout waiting for the backup''), cloud_backed_up,
      [Get_volume_backup ''b1'' [],
       Delete_volume_backup \<lparr>da_name_or_id = ''bid-1'', da_wait = True, da_timeout = 180\<rparr>]) \<and>
   main (mem_cloud (Some http_error)) (params1\<lparr>mode := ModeRestore, source_volume := None\<rparr>)
        cloud_backed_up =
     (FailJson (Some ''BadRequestException: 400''), cloud_backed_up,
      [Get_volume_backup ''b1'' [],
       Restore_volume_backup
         \<lparr>ra_backup_id = ''bid-1'', ra_volume_name = None, ra_volume_id = None,
          ra_wait = True, ra_timeout = 180\<rparr>])"
proof -
  have create_http: "main (mem_cloud (Some http_error)) params1 cloud_empty =
     (FailJson (Some ''Invalid request''), cloud_empty,
      [Volume_exists (Some ''v1''), Get_volume (Some ''v1''),
       Get_volume_backup ''b1'' [(''volume_id'', ''vid-1'')],
       Create_volume_backup
         \<lparr>ca_volume_id = ''vid-1'', ca_force = True, ca_wait = True, ca_timeout = 180,
          ca_name = ''b1'', ca_description = None\<rparr>])"
    by (simp add: module_defs mem_defs)
  have create_timeout: "main (mem_cloud (Some timeout_error)) params1 cloud_empty =
     (FailJson (Some ''Timeout waiting for the backup''), cloud_empty,
      [Volume_exists (Some ''v1''), Get_volume (Some ''v1''),
       Get_volume_backup ''b1'' [(''volume_id'', ''vid-1'')],
       Create_volume_backup
         \<lparr>ca_volume_id = ''vid-1'', ca_force = True, ca_wait = True, ca_timeout = 180,
          ca_name = ''b1'', ca_description = None\<rparr>])"
    by (simp add: module_defs mem_defs)
  have delete_timeout:
    "main (mem_cloud (Some timeout_error)) (params1\<lparr>state := Absent, source_volume := None\<rparr>)
        cloud_backed_up =
     (FailJson (Some ''Timeout waiting for the backup''), cloud_backed_up,
      [Get_volume_backup ''b1'' [],
       Delete_volume_backup \<lparr>da_name_or_id = ''bid-1'', da_wait = True, da_timeout = 180\<rparr>])"
    by (simp add: module_defs mem_defs)
  have restore_http:
    "main (mem_cloud (Some http_error)) (params1\<lparr>mode := ModeRestore, source_volume := None\<rparr>)
        cloud_backed_up =
     (FailJson (Some ''BadRequestException: 400''), cloud_backed_up,
      [Get_volume_backup ''b1'' [],
       Restore_volume_backup
         \<lparr>ra_backup_id = ''bid-1'', ra_volume_name = None, ra_volume_id = None,
          ra_wait = True, ra_timeout = 180\<rparr>])"
    by (simp add: module_defs mem_defs)
  show ?thesis
    using mutation_errors_reported [OF create_http] mutation_errors_reported [OF create_timeout]
      mutation_errors_reported [OF delete_timeout] mutation_errors_reported [OF restore_http]
    by - (simp (no_asm) only: create_http create_timeout delete_timeout restore_http simp_thms)
qed

subsection \<open>The filter on the source volume\<close>

text \<open>
  C9, as stated for every invocation with \<^verbatim>\<open>mode=backup\<close> and \<^verbatim>\<open>state=absent\<close>, fails in
  check mode: there the volume name \<^verbatim>\<open>v1\<close> given as \<^verbatim>\<open>source_volume\<close> is resolved by
  \<^verbatim>\<open>get_volume\<close>, and the backup is looked up with the id \<^verbatim>\<open>vid-1\<close> of that volume as
  \<^verbatim>\<open>volume_id\<close>, not with \<^verbatim>\<open>v1\<close>.
\<close>

theorem dry_run_resolves_source_volume_counterexample:
  "mode (params1\<lparr>check_mode := True, state := Absent\<rparr>) = ModeBackup \<and>
   state (params1\<lparr>check_mode := True, state := Absent\<rparr>) = Absent \<and>
   source_volume (params1\<lparr>check_mode := True, state := Absent\<rparr>) = Some ''v1'' \<and>
   main (mem_cloud None) (params1\<lparr>check_mode := True, state := Absent\<rparr>) cloud_backed_up =
     (ExitJson [(''changed'', VBool True)], cloud_backed_up,
      [Get_volume (Some ''v1''), Get_volume_backup ''b1'' [(''volume_id'', ''vid-1'')]])"
  by (simp add: module_defs mem_defs)

text \<open>
  C9, amended: outside check mode, with \<^verbatim>\<open>source_volume\<close> given and not empty,
  \<^item> with \<^verbatim>\<open>mode=backup\<close> and \<^verbatim>\<open>state=absent\<close>, every lookup of a backup is by the backup
    name with \<^verbatim>\<open>volume_id\<close> set to \<^verbatim>\<open>source_volume\<close> as it is, and \<^verbatim>\<open>get_volume\<close> is not
    called;
  \<^item> with \<^verbatim>\<open>mode=restore\<close>, every lookup of a backup is by the backup name with
    \<^verbatim>\<open>volume_id\<close> set to \<^verbatim>\<open>source_volume\<close> as it is, and \<^verbatim>\<open>get_volume\<close> is called on
    \<^verbatim>\<open>target_volume\<close> only;
  \<^item> with \<^verbatim>\<open>mode=backup\<close> and \<^verbatim>\<open>state=present\<close>, a lookup of a backup comes after
    \<^verbatim>\<open>get_volume(source_volume)\<close> and has \<^verbatim>\<open>volume_id\<close> set to the id of the volume that
    call returned.
\<close>

theorem source_volume_filter_verbatim:
  assumes "\<not> check_mode m" and "source_volume m = Some s" and "s \<noteq> []"
    and "main cloud m c = (out, c', t)"
  shows "(mode m = ModeBackup \<and> state m = Absent \<longrightarrow>
            (\<forall>n f. Get_volume_backup n f \<in> set t \<longrightarrow> n = backup m \<and> f = [(''volume_id'', s)]) \<and>
            (\<forall>x. Get_volume x \<notin> set t)) \<and>
         (mode m = ModeRestore \<longrightarrow>
            (\<forall>n f. Get_volume_backup n f \<in> set t \<longrightarrow> n = backup m \<and> f = [(''volume_id'', s)]) \<and>
            (\<forall>x. Get_volume x \<in> set t \<longrightarrow> x = target_volume m)) \<and>
         (mode m = ModeBackup \<and> state m = Present \<longrightarrow>
            (\<forall>n f. Get_volume_backup n f \<in> set t \<longrightarrow>
               n = backup m \<and> Get_volume (Some s) \<in> set t \<and>
               (\<exists>v. get_volume cloud c (Some s) = Inr (Some v) \<and>
                    f = [(''volume_id'', vol_id v)])))"
  using assms
  by (cases "mode m"; cases "state m"; auto simp: module_defs split: path_splits)

theorem source_volume_filter_verbatim_witness:
  "main (mem_cloud None) (params1\<lparr>state := Absent\<rparr>) cloud_backed_up =
     (ExitJson [(''changed'', VBool False)], cloud_backed_up,
      [Get_volume_backup ''b1'' [(''volume_id'', ''v1'')]]) \<and>
   main (mem_cloud None) (params1\<lparr>mode := ModeRestore\<rparr>) cloud_backed_up =
     (FailJson (Some ''No backup name or id 'b1' was found.''), cloud_backed_up,
      [Get_volume_backup ''b1'' [(''volume_id'', ''v1'')]]) \<and>
   main (mem_cloud None) params1 cloud_backed_up =
     (ExitJson [(''changed'', VBool False), (''backup'', VBackup backup1)], cloud_backed_up,
      [Volume_exists (Some ''v1''), Get_volume (Some ''v1''),
       Get_volume_backup ''b1'' [(''volume_id'', ''vid-1'')]])"
proof -
  have absent_run: "main (mem_cloud None) (params1\<lparr>state := Absent\<rparr>) cloud_backed_up =
     (ExitJson [(''changed'', VBool False)], cloud_backed_up,
      [Get_volume_backup ''b1'' [(''volume_id'', ''v1'')]])"
    by (simp add: module_defs mem_defs)
  have restore_run: "main (mem_cloud None) (params1\<lparr>mode := ModeRestore\<rparr>) cloud_backed_up =
     (FailJson (Some ''No backup name or id 'b1' was found.''), cloud_backed_up,
      [Get_volume_backup ''b1'' [(''volume_id'', ''v1'')]])"
    by (simp add: module_defs mem_defs)
  have present_run: "main (mem_cloud None) params1 cloud_backed_up =
     (ExitJson [(''changed'', VBool False), (''backup'', VBackup backup1)], cloud_backed_up,
      [Volume_exists (Some ''v1''), Get_volume (Some ''v1''),
       Get_volume_backup ''b1'' [(''volume_id'', ''vid-1'')]])"
    by (simp add: module_defs mem_defs)
  have given: "\<not> check_mode (params1\<lparr>state := Absent\<rparr>)"
      "source_volume (params1\<lparr>state := Absent\<rparr>) = Some ''v1''"
      "\<not> check_mode (params1\<lparr>mode := ModeRestore\<rparr>)"
      "source_volume (params1\<lparr>mode := ModeRestore\<rparr>) = Some ''v1''"
      "\<not> check_mode params1" "source_volume params1 = Some ''v1''" "''v1'' \<noteq> []"
    by (simp_all add: params1_def)
  show ?thesis
    using source_volume_filter_verbatim [OF given(1,2,7) absent_run]
      source_volume_filter_verbatim [OF given(3,4,7) restore_run]
      source_volume_filter_verbatim [OF given(5,6,7) present_run]
    by - (simp (no_asm) only: absent_run restore_run present_run simp_thms)
qed

end
